theory Spec2Isabelle
  imports Main "HOL-Library.Multiset" "HOL-Library.Product_Lexorder"
begin

section \<open>Python values and exceptions\<close>

text \<open>
  The arguments of \<^verbatim>\<open>fast.py\<close> are dynamically typed. The values that its
  \<^verbatim>\<open>isinstance\<close>, \<^verbatim>\<open>hasattr\<close>, \<^verbatim>\<open>len\<close> and \<^verbatim>\<open>for\<close> tell apart are the
  constructors of \<open>pyval\<close>. A float is a mantissa and an exponent (only its tag is
  ever inspected), a timestamp is a number of seconds, a \<^verbatim>\<open>range\<close> is its start,
  stop and step, and a \<^verbatim>\<open>pd.DatetimeIndex\<close> is the list of its timestamps.
\<close>

datatype pyval =
    PInt int
  | PBool bool
  | PFloat int int
  | PStr string
  | PNone
  | PTimestamp int
  | PList "pyval list"
  | PTuple "pyval list"
  | PRange int int int
  | PDatetimeIndex "int list"

text \<open>
  Every exception the module can raise or let through. \<open>ValueError_fxx\<close> and
  \<open>ValueError_DATES\<close> are the two \<^verbatim>\<open>raise ValueError\<close> statements of the
  validators; \<open>ParserError\<close> is what \<^verbatim>\<open>pd.to_datetime\<close> raises on a value it cannot
  parse; \<open>TypeError_len\<close> and \<open>TypeError_iter\<close> are Python's errors for \<^verbatim>\<open>len\<close>
  and \<^verbatim>\<open>for\<close> on a value that has neither; \<open>ValueError_max_workers\<close> is raised by
  \<^verbatim>\<open>ThreadPoolExecutor(n)\<close> for \<open>n \<le> 0\<close>; \<open>ValueError_range_step\<close> by \<^verbatim>\<open>range\<close> with
  step zero; \<open>FormatError\<close> by the format code \<^verbatim>\<open>02d\<close> on a non-integer;
  \<open>ValueError_freq\<close> by \<^verbatim>\<open>floor\<close> with a zero frequency; \<open>IndexError\<close> by \<^verbatim>\<open>[-1]\<close>
  on an empty list. \<open>TaskError\<close> stands for whatever a single task (a \<^verbatim>\<open>Herbie\<close>
  construction or a download) raises.
\<close>

datatype exn =
    ValueError_fxx pyval
  | ValueError_DATES pyval
  | ParserError pyval
  | TypeError_len pyval
  | TypeError_iter pyval
  | ValueError_max_workers
  | ValueError_range_step
  | FormatError pyval
  | ValueError_freq
  | IndexError
  | TaskError string

text \<open>\<^verbatim>\<open>isinstance(v, int)\<close>: \<^verbatim>\<open>bool\<close> is a subclass of \<^verbatim>\<open>int\<close>.\<close>

fun isinstance_int :: "pyval \<Rightarrow> bool" where
  "isinstance_int (PInt _) = True"
| "isinstance_int (PBool _) = True"
| "isinstance_int _ = False"

fun isinstance_str :: "pyval \<Rightarrow> bool" where
  "isinstance_str (PStr _) = True"
| "isinstance_str _ = False"

text \<open>\<^verbatim>\<open>isinstance(v, (list, range))\<close>\<close>

fun isinstance_list_range :: "pyval \<Rightarrow> bool" where
  "isinstance_list_range (PList _) = True"
| "isinstance_list_range (PRange _ _ _) = True"
| "isinstance_list_range _ = False"

text \<open>\<^verbatim>\<open>isinstance(v, (list, pd.DatetimeIndex))\<close>\<close>

fun isinstance_list_DatetimeIndex :: "pyval \<Rightarrow> bool" where
  "isinstance_list_DatetimeIndex (PList _) = True"
| "isinstance_list_DatetimeIndex (PDatetimeIndex _) = True"
| "isinstance_list_DatetimeIndex _ = False"

text \<open>\<^verbatim>\<open>hasattr(v, "__len__")\<close>\<close>

fun has_len :: "pyval \<Rightarrow> bool" where
  "has_len (PStr _) = True"
| "has_len (PList _) = True"
| "has_len (PTuple _) = True"
| "has_len (PRange _ _ _) = True"
| "has_len (PDatetimeIndex _) = True"
| "has_len _ = False"

text \<open>The number of elements of \<^verbatim>\<open>range(start, stop, step)\<close>, as CPython computes it.\<close>

definition range_len :: "int \<Rightarrow> int \<Rightarrow> int \<Rightarrow> nat" where
  "range_len start stop step =
     (if 0 < step then nat ((stop - start + step - 1) div step)
      else if step < 0 then nat ((start - stop - step - 1) div (- step))
      else 0)"

definition range_elems :: "int \<Rightarrow> int \<Rightarrow> int \<Rightarrow> int list" where
  "range_elems start stop step =
     map (\<lambda>k. start + int k * step) [0..<range_len start stop step]"

text \<open>\<^verbatim>\<open>len(v)\<close>\<close>

fun py_len :: "pyval \<Rightarrow> exn + nat" where
  "py_len (PStr s) = Inr (length s)"
| "py_len (PList xs) = Inr (length xs)"
| "py_len (PTuple xs) = Inr (length xs)"
| "py_len (PRange a b s) = Inr (range_len a b s)"
| "py_len (PDatetimeIndex ts) = Inr (length ts)"
| "py_len v = Inl (TypeError_len v)"

text \<open>
  \<^verbatim>\<open>for x in v\<close>: the elements in order. A string yields its characters as
  one-character strings.
\<close>

fun py_iter :: "pyval \<Rightarrow> exn + pyval list" where
  "py_iter (PStr s) = Inr (map (\<lambda>c. PStr [c]) s)"
| "py_iter (PList xs) = Inr xs"
| "py_iter (PTuple xs) = Inr xs"
| "py_iter (PRange a b s) = Inr (map PInt (range_elems a b s))"
| "py_iter (PDatetimeIndex ts) = Inr (map PTimestamp ts)"
| "py_iter v = Inl (TypeError_iter v)"

section \<open>The input validators\<close>

text \<open>
  \<^verbatim>\<open>
  def _validate_fxx(fxx):
      if isinstance(fxx, int):
          fxx = [fxx]
      if not isinstance(fxx, (list, range)):
          raise ValueError(f"fxx must be an int, list, or range. Gave {fxx}")
      return fxx
  \<close>
\<close>

definition validate_fxx :: "pyval \<Rightarrow> exn + pyval" where
  "validate_fxx v =
     (let v1 = (if isinstance_int v then PList [v] else v)
      in if \<not> isinstance_list_range v1 then Inl (ValueError_fxx v1) else Inr v1)"

text \<open>
  \<^verbatim>\<open>
  def _validate_DATES(DATES):
      if isinstance(DATES, str):
          DATES = [pd.to_datetime(DATES)]
      elif not hasattr(DATES, "__len__"):
          DATES = [pd.to_datetime(DATES)]
      if not isinstance(DATES, (list, pd.DatetimeIndex)):
          raise ValueError(...)
      return DATES
  \<close>
  \<^verbatim>\<open>pd.to_datetime\<close> belongs to pandas and is a parameter: it gives the timestamp
  of a value it can parse and \<open>None\<close> where pandas raises.
\<close>

definition wrap_datetime :: "(pyval \<Rightarrow> int option) \<Rightarrow> pyval \<Rightarrow> exn + pyval" where
  "wrap_datetime to_datetime v =
     (case to_datetime v of
        None \<Rightarrow> Inl (ParserError v)
      | Some t \<Rightarrow> Inr (PList [PTimestamp t]))"

definition validate_DATES :: "(pyval \<Rightarrow> int option) \<Rightarrow> pyval \<Rightarrow> exn + pyval" where
  "validate_DATES to_datetime v =
     (case (if isinstance_str v then wrap_datetime to_datetime v
            else if \<not> has_len v then wrap_datetime to_datetime v
            else Inr v) of
        Inl e \<Rightarrow> Inl e
      | Inr v1 \<Rightarrow>
          if \<not> isinstance_list_DatetimeIndex v1 then Inl (ValueError_DATES v1)
          else Inr v1)"

section \<open>The batch resolver\<close>

text \<open>
  A \<^verbatim>\<open>Herbie\<close> object, as far as \<^verbatim>\<open>fast.py\<close> reads it: the attributes
  \<^verbatim>\<open>date\<close>, \<^verbatim>\<open>fxx\<close> and \<^verbatim>\<open>grib\<close> (the artifact reference, \<^verbatim>\<open>None\<close> when no file
  was found).
\<close>

record Herbie_obj =
  date :: int
  fxx :: int
  grib :: "string option"

datatype log_entry =
    Info_tasks nat int
  | Error exn
  | Info_objects nat
  | Warning_missing nat nat

record FastHerbie =
  self_DATES :: pyval
  self_fxx :: pyval
  tasks :: nat
  objects :: "Herbie_obj list"
  file_exists :: "Herbie_obj list"
  file_not_exists :: "Herbie_obj list"

text \<open>
  The futures of the list comprehension
  \<^verbatim>\<open>[exe.submit(Herbie, date=DATE, fxx=f, **kwargs) for DATE in DATES for f in fxx]\<close>,
  each with the outcome of its call, in submission order.
\<close>

definition submit :: "('d \<Rightarrow> 'f \<Rightarrow> exn + 'a) \<Rightarrow> 'd list \<Rightarrow> 'f list \<Rightarrow> (exn + 'a) list" where
  "submit ctor ds fs = concat (map (\<lambda>d. map (\<lambda>f. ctor d f) fs) ds)"

text \<open>
  \<^verbatim>\<open>as_completed(futures)\<close> yields the futures in the order in which they finish.
  The order is fixed by the latency \<open>lat i\<close> of the \<open>i\<close>-th submitted future: the
  futures come out by increasing latency.
\<close>

definition as_completed :: "(nat \<Rightarrow> nat) \<Rightarrow> 'a list \<Rightarrow> 'a list" where
  "as_completed lat futures =
     map snd (sort_key fst (zip (map lat [0..<length futures]) futures))"

text \<open>
  The loop over the completed futures: a result is appended to the list, an
  exception is logged.
\<close>

fun results :: "(exn + 'a) list \<Rightarrow> 'a list" where
  "results [] = []"
| "results (Inr x # fs) = x # results fs"
| "results (Inl e # fs) = results fs"

fun exceptions :: "(exn + 'a) list \<Rightarrow> exn list" where
  "exceptions [] = []"
| "exceptions (Inr x # fs) = exceptions fs"
| "exceptions (Inl e # fs) = e # exceptions fs"

text \<open>The exceptions that a log reports through \<^verbatim>\<open>log.error\<close>, in order.\<close>

fun errors_logged :: "log_entry list \<Rightarrow> exn list" where
  "errors_logged [] = []"
| "errors_logged (Error e # es) = e # errors_logged es"
| "errors_logged (_ # es) = errors_logged es"

text \<open>Sequencing of calls that may raise: the first exception ends the run.\<close>

definition bind_exn :: "exn + 'a \<Rightarrow> ('a \<Rightarrow> exn + 'b) \<Rightarrow> exn + 'b" where
  "bind_exn r k = (case r of Inl e \<Rightarrow> Inl e | Inr x \<Rightarrow> k x)"

text \<open>
  The body of \<^verbatim>\<open>FastHerbie.__init__\<close> from the \<^verbatim>\<open>with ThreadPoolExecutor\<close>
  block on, once the pool exists: collect the completed futures, sort the objects by
  \<^verbatim>\<open>fxx\<close> and then by \<^verbatim>\<open>date\<close>, and split them on \<^verbatim>\<open>grib is not None\<close>.
  Python's \<^verbatim>\<open>list.sort(key=...)\<close> is stable, as \<open>sort_key\<close> is. The result is
  the object together with the log records written.
\<close>

definition resolve ::
  "(nat \<Rightarrow> nat) \<Rightarrow> pyval \<Rightarrow> pyval \<Rightarrow> nat \<Rightarrow> int \<Rightarrow> (exn + Herbie_obj) list \<Rightarrow>
   FastHerbie \<times> log_entry list" where
  "resolve lat sD sF n threads futures =
     (let completed = as_completed lat futures;
          objs = sort_key date (sort_key fxx (results completed));
          ex = filter (\<lambda>H. grib H \<noteq> None) objs;
          nex = filter (\<lambda>H. grib H = None) objs
      in (\<lparr>self_DATES = sD, self_fxx = sF, tasks = n, objects = objs,
           file_exists = ex, file_not_exists = nex\<rparr>,
          [Info_tasks n threads] @ map Error (exceptions completed) @
          [Info_objects (length objs)] @
          (if 0 < length nex then [Warning_missing (length nex) (length ex)] else [])))"

text \<open>
  \<^verbatim>\<open>FastHerbie.__init__(self, DATES, fxx, *, max_threads, **kwargs)\<close>. The
  validated values go to \<^verbatim>\<open>self.DATES\<close> and \<^verbatim>\<open>self.fxx\<close>; the task count and the
  two loops of the comprehension read the arguments \<^verbatim>\<open>DATES\<close> and \<^verbatim>\<open>fxx\<close>
  themselves. The constructor call \<^verbatim>\<open>Herbie(date=..., fxx=..., **kwargs)\<close> is the
  parameter \<open>new_Herbie\<close>.
\<close>

definition FastHerbie_init ::
  "(pyval \<Rightarrow> int option) \<Rightarrow> (pyval \<Rightarrow> pyval \<Rightarrow> exn + Herbie_obj) \<Rightarrow> (nat \<Rightarrow> nat) \<Rightarrow>
   int \<Rightarrow> pyval \<Rightarrow> pyval \<Rightarrow> exn + (FastHerbie \<times> log_entry list)" where
  "FastHerbie_init to_datetime new_Herbie lat max_threads DATES fxxs =
     bind_exn (validate_DATES to_datetime DATES) (\<lambda>sD.
     bind_exn (validate_fxx fxxs) (\<lambda>sF.
     bind_exn (py_len DATES) (\<lambda>nD.
     bind_exn (py_len fxxs) (\<lambda>nF.
       (let n = nD * nF; threads = min (int n) max_threads
        in (if threads \<le> 0 then Inl ValueError_max_workers
            else bind_exn (py_iter DATES) (\<lambda>ds.
                 bind_exn (py_iter fxxs) (\<lambda>fs.
                   Inr (resolve lat sD sF n threads (submit new_Herbie ds fs))))))))))"

text \<open>
  Modelled from the spec: the class \<^verbatim>\<open>Herbie\<close> of \<^verbatim>\<open>herbie.core\<close> is not among
  the sources. By the spec a DataHandle is constructible from a date and a lead, and
  the resolved item carries the originating date (a timestamp), the lead (an integer)
  and a reference to the artifact, possibly absent. The existence probe \<open>probe\<close> is a
  parameter; it may raise. A date that pandas cannot parse and a lead that is not an
  integer make the construction raise.
\<close>

definition Herbie ::
  "(pyval \<Rightarrow> int option) \<Rightarrow> (int \<Rightarrow> int \<Rightarrow> exn + string option) \<Rightarrow>
   pyval \<Rightarrow> pyval \<Rightarrow> exn + Herbie_obj" where
  "Herbie to_datetime probe d f =
     (case to_datetime d of
        None \<Rightarrow> Inl (ParserError d)
      | Some t \<Rightarrow>
          (case f of
             PInt k \<Rightarrow> bind_exn (probe t k) (\<lambda>g. Inr \<lparr>date = t, fxx = k, grib = g\<rparr>)
           | _ \<Rightarrow> Inl (TaskError ''fxx'')))"

section \<open>Batch operations\<close>

text \<open>
  \<^verbatim>\<open>f"{i:02d}"\<close>: an integer in decimal, zero-padded to width two (the sign counts
  towards the width); the format code raises on anything that is not an integer.
\<close>

fun digits :: "nat \<Rightarrow> string" where
  "digits n = (if n < 10 then [''0123456789'' ! n]
               else digits (n div 10) @ [''0123456789'' ! (n mod 10)])"

declare digits.simps [simp del]

definition format_02d :: "pyval \<Rightarrow> exn + string" where
  "format_02d v =
     (case v of
        PInt i \<Rightarrow>
          Inr (if i < 0 then CHR ''-'' # digits (nat (- i))
               else if i < 10 then CHR ''0'' # digits (nat i)
               else digits (nat i))
      | PBool b \<Rightarrow> Inr (if b then ''01'' else ''00'')
      | _ \<Rightarrow> Inl (FormatError v))"

fun format_all :: "pyval list \<Rightarrow> exn + string list" where
  "format_all [] = Inr []"
| "format_all (v # vs) =
     bind_exn (format_02d v) (\<lambda>c. bind_exn (format_all vs) (\<lambda>cs. Inr (c # cs)))"

text \<open>What \<^verbatim>\<open>pd.DataFrame(data, index=..., columns=...)\<close> is handed.\<close>

record DataFrame =
  data :: "Herbie_obj list list"
  index :: pyval
  columns :: "string list"

text \<open>
  \<^verbatim>\<open>
  def df(self):
      ds_list = [self.objects[x : x + len(self.fxx)]
                 for x in range(0, len(self.objects), len(self.fxx))]
      return pd.DataFrame(ds_list, index=self.DATES,
                          columns=[f"F{i:02d}" for i in self.fxx])
  \<close>
  The slice \<^verbatim>\<open>xs[x : x + L]\<close> is \<open>take L (drop x xs)\<close>;
  \<^verbatim>\<open>range(0, n, L)\<close> raises for \<open>L = 0\<close> and is \<open>0, L, 2L, ...\<close> below \<open>n\<close>
  otherwise.
\<close>

definition chunks :: "nat \<Rightarrow> 'a list \<Rightarrow> 'a list list" where
  "chunks L xs = map (\<lambda>k. take L (drop (k * L) xs)) [0..<(length xs + L - 1) div L]"

definition df :: "FastHerbie \<Rightarrow> exn + DataFrame" where
  "df self =
     bind_exn (py_len (self_fxx self)) (\<lambda>L.
       if L = 0 then Inl ValueError_range_step
       else bind_exn (py_iter (self_fxx self)) (\<lambda>fs.
            bind_exn (format_all fs) (\<lambda>cs.
              Inr \<lparr>data = chunks L (objects self), index = self_DATES self,
                   columns = map (\<lambda>c. CHR ''F'' # c) cs\<rparr>)))"

text \<open>
  \<^verbatim>\<open>FastHerbie.download(self, search, *, max_threads, **download_kwargs)\<close>. The
  method \<^verbatim>\<open>H.download\<close> of an object (with \<^verbatim>\<open>search\<close> and the keyword arguments
  applied) is the parameter \<open>dl\<close>: it gives a path or raises.
\<close>

definition download ::
  "FastHerbie \<Rightarrow> (Herbie_obj \<Rightarrow> exn + string) \<Rightarrow> (nat \<Rightarrow> nat) \<Rightarrow> int \<Rightarrow>
   exn + (string list \<times> log_entry list)" where
  "download self dl lat max_threads =
     (let threads = min (int (tasks self)) max_threads
      in if threads \<le> 0 then Inl ValueError_max_workers
         else (let completed = as_completed lat (map dl (file_exists self))
               in Inr (results completed,
                       [Info_tasks (tasks self) threads] @ map Error (exceptions completed))))"

section \<open>The latest-file finder\<close>

text \<open>
  \<^verbatim>\<open>
  def Herbie_latest(n=6, freq="1h", **kwargs):
      current = pd.Timestamp.now("utc").tz_localize(None).floor(freq)
      DATES = pd.date_range(start=current - (pd.Timedelta(freq) * n),
                            end=current, freq=freq)
      FH = FastHerbie(DATES, **kwargs)
      return FH.file_exists[-1]
  \<close>
  Times and the frequency are in seconds; the clock reading \<open>now\<close> is an argument.
  \<^verbatim>\<open>floor\<close> rounds down to a multiple of the frequency and raises for a zero one;
  \<^verbatim>\<open>pd.date_range(start, end, freq)\<close> is \<open>start, start + freq, ...\<close> up to and
  including \<open>end\<close>. \<^verbatim>\<open>FastHerbie\<close> is called with its defaults \<^verbatim>\<open>fxx=[0]\<close> and
  \<^verbatim>\<open>max_threads=50\<close>.
\<close>

definition floor_freq :: "int \<Rightarrow> nat \<Rightarrow> int" where
  "floor_freq t freq = t - t mod int freq"

definition date_range :: "int \<Rightarrow> int \<Rightarrow> nat \<Rightarrow> int list" where
  "date_range start stop freq =
     map (\<lambda>k. start + int k * int freq) [0..<nat ((stop - start) div int freq + 1)]"

definition latest_DATES :: "int \<Rightarrow> int \<Rightarrow> nat \<Rightarrow> int list" where
  "latest_DATES now n freq =
     (let current = floor_freq now freq
      in date_range (current - int freq * n) current freq)"

definition Herbie_latest ::
  "(pyval \<Rightarrow> int option) \<Rightarrow> (pyval \<Rightarrow> pyval \<Rightarrow> exn + Herbie_obj) \<Rightarrow> (nat \<Rightarrow> nat) \<Rightarrow>
   int \<Rightarrow> int \<Rightarrow> nat \<Rightarrow> exn + Herbie_obj" where
  "Herbie_latest to_datetime new_Herbie lat now n freq =
     (if freq = 0 then Inl ValueError_freq
      else bind_exn
             (FastHerbie_init to_datetime new_Herbie lat 50
                (PDatetimeIndex (latest_DATES now n freq)) (PList [PInt 0]))
             (\<lambda>r. case file_exists (fst r) of
                     [] \<Rightarrow> Inl IndexError
                   | H # Hs \<Rightarrow> Inr (last (H # Hs))))"

section \<open>Concrete collaborators\<close>

text \<open>
  A parser, probes and schedules to run the model on: \<open>parse_demo\<close> reads a
  timestamp and the string \<^verbatim>\<open>2021-01-01\<close>; \<open>probe_found\<close> finds every file,
  \<open>probe_lead0\<close> only those of lead 0, \<open>probe_raise\<close> always raises, and
  \<open>probe_mixed\<close> raises for lead 6, finds nothing for lead 3 and finds the rest,
  \<open>probe_at t0\<close> finds the files of the date \<open>t0\<close> only; \<open>lat_rev\<close> lets the
  futures finish in the reverse of their submission; \<open>dl_demo\<close> is a download that
  fails for lead 6.
\<close>

fun parse_demo :: "pyval \<Rightarrow> int option" where
  "parse_demo (PTimestamp t) = Some t"
| "parse_demo (PStr s) = (if s = ''2021-01-01'' then Some 1609459200 else None)"
| "parse_demo _ = None"

definition probe_found :: "int \<Rightarrow> int \<Rightarrow> exn + string option" where
  "probe_found t k = Inr (Some ''grib2'')"

definition probe_lead0 :: "int \<Rightarrow> int \<Rightarrow> exn + string option" where
  "probe_lead0 t k = Inr (if k = 0 then Some ''grib2'' else None)"

definition probe_raise :: "int \<Rightarrow> int \<Rightarrow> exn + string option" where
  "probe_raise t k = Inl (TaskError ''timeout'')"

definition probe_mixed :: "int \<Rightarrow> int \<Rightarrow> exn + string option" where
  "probe_mixed t k =
     (if k = 6 then Inl (TaskError ''timeout'')
      else if k = 3 then Inr None else Inr (Some ''grib2''))"

definition probe_at :: "int \<Rightarrow> int \<Rightarrow> int \<Rightarrow> exn + string option" where
  "probe_at t0 t k = Inr (if t = t0 then Some ''grib2'' else None)"

definition lat_rev :: "nat \<Rightarrow> nat" where
  "lat_rev i = 100 - i"

definition dl_demo :: "Herbie_obj \<Rightarrow> exn + string" where
  "dl_demo H = (if fxx H = 6 then Inl (TaskError ''refused'') else Inr ''file.grib2'')"

text \<open>
  The canonical order of the resolved items: by date, and by lead among equal dates.
\<close>

definition date_fxx_le :: "Herbie_obj \<Rightarrow> Herbie_obj \<Rightarrow> bool" where
  "date_fxx_le a b \<longleftrightarrow> date a < date b \<or> (date a = date b \<and> fxx a \<le> fxx b)"

section \<open>Basic facts\<close>

lemma bind_exn_Inr_iff:
  "bind_exn r k = Inr y \<longleftrightarrow> (\<exists>x. r = Inr x \<and> k x = Inr y)"
  by (cases r) (simp_all add: bind_exn_def)

lemma py_len_iter: "py_len v = Inr n \<Longrightarrow> \<exists>xs. py_iter v = Inr xs \<and> length xs = n"
  by (cases v) (auto simp: range_elems_def)

lemma py_iter_len: "py_iter v = Inr xs \<Longrightarrow> py_len v = Inr (length xs)"
  by (cases v) (auto simp: range_elems_def)

lemma length_submit: "length (submit c ds fs) = length ds * length fs"
  by (induction ds) (simp_all add: submit_def)

lemma mset_as_completed: "mset (as_completed lat fs) = mset fs"
proof -
  have len: "length (map lat [0..<length fs]) = length fs" by simp
  have "mset (as_completed lat fs) = image_mset snd (mset (zip (map lat [0..<length fs]) fs))"
    unfolding as_completed_def by simp
  also have "\<dots> = mset (map snd (zip (map lat [0..<length fs]) fs))"
    by (simp only: mset_map)
  also have "map snd (zip (map lat [0..<length fs]) fs) = fs"
    using len by (rule map_snd_zip)
  finally show ?thesis .
qed

lemma results_filter: "results fs = map projr (filter (\<lambda>r. \<not> isl r) fs)"
  by (induction fs rule: results.induct) simp_all

lemma exceptions_filter: "exceptions fs = map projl (filter isl fs)"
  by (induction fs rule: exceptions.induct) simp_all

lemma mset_results_cong: "mset fs = mset gs \<Longrightarrow> mset (results fs) = mset (results gs)"
  by (simp add: results_filter)

lemma mset_exceptions_cong: "mset fs = mset gs \<Longrightarrow> mset (exceptions fs) = mset (exceptions gs)"
  by (simp add: exceptions_filter)

lemma length_results_exceptions: "length (results fs) + length (exceptions fs) = length fs"
  by (induction fs rule: results.induct) simp_all

lemma Inr_results: "map Inr (results fs) = filter (\<lambda>r. \<not> isl r) fs"
  by (induction fs rule: results.induct) simp_all

lemma results_Inr_sub: "mset (map Inr (results fs)) \<subseteq># mset fs"
  unfolding Inr_results by simp

lemma sorted_date_then_fxx:
  "sorted (map date R) \<Longrightarrow> (\<And>d. sorted (map fxx (filter (\<lambda>H. date H = d) R))) \<Longrightarrow>
   sorted (map (\<lambda>H. (date H, fxx H)) R)"
proof (induction R)
  case Nil
  then show ?case by simp
next
  case (Cons x xs)
  have tl: "sorted (map fxx (filter (\<lambda>H. date H = d) xs))" for d
    using Cons.prems(2) [of d] by (simp split: if_splits)
  have "sorted (map (\<lambda>H. (date H, fxx H)) xs)"
    using Cons.IH Cons.prems(1) tl by simp
  moreover have "(date x, fxx x) \<le> (date y, fxx y)" if "y \<in> set xs" for y
  proof (cases "date x = date y")
    case True
    with Cons.prems(2) [of "date x"] that show ?thesis by auto
  next
    case False
    with Cons.prems(1) that show ?thesis by auto
  qed
  ultimately show ?case by simp
qed

lemma sorted_two_sorts: "sorted (map (\<lambda>H. (date H, fxx H)) (sort_key date (sort_key fxx xs)))"
proof (rule sorted_date_then_fxx)
  show "sorted (map date (sort_key date (sort_key fxx xs)))" by simp
  show "sorted (map fxx (filter (\<lambda>H. date H = d) (sort_key date (sort_key fxx xs))))" for d
    by (simp add: sort_key_stable sorted_filter)
qed

lemma key_inj_Herbie:
  fixes fs :: "(exn + Herbie_obj) list"
  assumes "\<forall>r \<in> set fs. \<forall>H. r = Inr H \<longrightarrow> probe (date H) (fxx H) = Inr (grib H)"
  shows "inj_on (\<lambda>H. (date H, fxx H)) (set (results fs))"
proof (rule inj_onI)
  fix a b :: Herbie_obj
  assume "a \<in> set (results fs)" "b \<in> set (results fs)" and k: "(date a, fxx a) = (date b, fxx b)"
  then have "Inr a \<in> set fs" "Inr b \<in> set fs"
    by (auto simp: results_filter)
  with assms have "probe (date a) (fxx a) = Inr (grib a)" "probe (date b) (fxx b) = Inr (grib b)"
    by blast+
  with k have "grib a = grib b" by simp
  with k show "a = b" by simp
qed

lemma Herbie_probe:
  "Herbie td probe d f = Inr H \<Longrightarrow> probe (date H) (fxx H) = Inr (grib H)"
  by (auto simp: Herbie_def bind_exn_def split: option.splits pyval.splits sum.splits)

lemma set_submit: "set (submit c ds fs) = (\<Union>d \<in> set ds. \<Union>f \<in> set fs. {c d f})"
  by (auto simp: submit_def)

lemma threads_pos: "\<not> min (int (a * b)) mt \<le> 0 \<longleftrightarrow> 0 < a * b \<and> 0 < mt"
proof -
  have "\<not> min x mt \<le> 0 \<longleftrightarrow> 0 < x \<and> 0 < mt" for x :: int
    by (auto simp: min_def)
  from this [of "int (a * b)"] show ?thesis
    by (simp only: of_nat_0_less_iff)
qed

lemma init_Inr:
  assumes "FastHerbie_init td c lat mt D F = Inr r"
  shows "\<exists>sD sF ds fs. validate_DATES td D = Inr sD \<and> validate_fxx F = Inr sF \<and>
           py_iter D = Inr ds \<and> py_iter F = Inr fs \<and> 0 < mt \<and> 0 < length ds * length fs \<and>
           r = resolve lat sD sF (length ds * length fs)
                 (min (int (length ds * length fs)) mt) (submit c ds fs)"
proof -
  from assms obtain sD sF nD nF ds fs where
    v: "validate_DATES td D = Inr sD" "validate_fxx F = Inr sF" and
    l: "py_len D = Inr nD" "py_len F = Inr nF" and
    t: "\<not> min (int (nD * nF)) mt \<le> 0" and
    i: "py_iter D = Inr ds" "py_iter F = Inr fs" and
    r: "r = resolve lat sD sF (nD * nF) (min (int (nD * nF)) mt) (submit c ds fs)"
    unfolding FastHerbie_init_def
    by (auto simp: bind_exn_Inr_iff Let_def split: if_splits)
  from l i have n: "nD = length ds" "nF = length fs"
    by (auto dest: py_iter_len)
  from t have "0 < nD * nF \<and> 0 < mt"
    by (simp only: threads_pos)
  with v i r n show ?thesis by blast
qed

lemma init_resolve:
  assumes "validate_DATES td D = Inr sD" "validate_fxx F = Inr sF"
    "py_iter D = Inr ds" "py_iter F = Inr fs" "0 < mt" "0 < length ds * length fs"
  shows "FastHerbie_init td c lat mt D F =
         Inr (resolve lat sD sF (length ds * length fs)
                 (min (int (length ds * length fs)) mt) (submit c ds fs))"
proof -
  have "\<not> min (int (length ds * length fs)) mt \<le> 0"
    using assms(5,6) by (simp only: threads_pos)
  then show ?thesis
    using assms(1-4) py_iter_len [OF assms(3)] py_iter_len [OF assms(4)]
    unfolding FastHerbie_init_def by (simp add: bind_exn_def Let_def del: of_nat_mult)
qed


lemmas run_defs = FastHerbie_init_def bind_exn_def validate_DATES_def validate_fxx_def
  wrap_datetime_def resolve_def submit_def as_completed_def Herbie_def Let_def

lemma sorted_key_iff: "sorted (map (\<lambda>H. (date H, fxx H)) xs) \<longleftrightarrow> sorted_wrt date_fxx_le xs"
proof -
  have "(date a, fxx a) \<le> (date b, fxx b) \<longleftrightarrow> date_fxx_le a b" for a b
    by (auto simp: date_fxx_le_def)
  then show ?thesis by (simp add: sorted_map)
qed

lemma sorted_unique:
  fixes k :: "'a \<Rightarrow> 'b::linorder"
  assumes "sorted (map k xs)" "sorted (map k ys)" "mset xs = mset ys" "inj_on k (set xs)"
  shows "xs = ys"
proof -
  have m: "mset (map k ys) = mset (map k xs)" using assms(3) by simp
  have "sort (map k xs) = map k xs"
    using assms(1) by (simp add: sorted_sort_id)
  moreover have "sort (map k xs) = map k ys"
    using m assms(2) by (rule properties_for_sort)
  ultimately have "map k xs = map k ys" by simp
  moreover have "set ys = set xs" using assms(3) by (metis mset_eq_setD)
  ultimately show ?thesis
    using assms(4) by (simp add: inj_on_map_eq_map)
qed

lemma objects_resolve:
  "objects (fst (resolve lat sD sF n th fs)) = sort_key date (sort_key fxx (results (as_completed lat fs)))"
  "file_exists (fst (resolve lat sD sF n th fs)) = filter (\<lambda>H. grib H \<noteq> None) (objects (fst (resolve lat sD sF n th fs)))"
  "file_not_exists (fst (resolve lat sD sF n th fs)) = filter (\<lambda>H. grib H = None) (objects (fst (resolve lat sD sF n th fs)))"
  "tasks (fst (resolve lat sD sF n th fs)) = n"
  "self_DATES (fst (resolve lat sD sF n th fs)) = sD"
  "self_fxx (fst (resolve lat sD sF n th fs)) = sF"
  by (simp_all add: resolve_def Let_def)

lemma errors_logged_append: "errors_logged (xs @ ys) = errors_logged xs @ errors_logged ys"
  by (induction xs rule: errors_logged.induct) simp_all

lemma errors_logged_map_Error: "errors_logged (map Error es) = es"
  by (induction es) simp_all

lemma errors_resolve:
  "errors_logged (snd (resolve lat sD sF n th fs)) = exceptions (as_completed lat fs)"
  by (simp add: resolve_def Let_def errors_logged_append errors_logged_map_Error)

lemma mset_objects_resolve:
  "mset (objects (fst (resolve lat sD sF n th fs))) = mset (results fs)"
  by (simp add: objects_resolve(1) mset_results_cong [OF mset_as_completed])

lemma resolve_lat_indep:
  assumes "inj_on (\<lambda>H. (date H, fxx H)) (set (results fs))"
  shows "fst (resolve lat1 sD sF n th fs) = fst (resolve lat2 sD sF n th fs)"
proof -
  let ?o1 = "objects (fst (resolve lat1 sD sF n th fs))"
  let ?o2 = "objects (fst (resolve lat2 sD sF n th fs))"
  have "set ?o1 = set (results fs)"
    using mset_objects_resolve [of lat1 sD sF n th fs] by (metis mset_eq_setD)
  with assms have i: "inj_on (\<lambda>H. (date H, fxx H)) (set ?o1)" by simp
  have m: "mset ?o1 = mset ?o2" by (simp add: mset_objects_resolve)
  have s1: "sorted (map (\<lambda>H. (date H, fxx H)) ?o1)" and s2: "sorted (map (\<lambda>H. (date H, fxx H)) ?o2)"
    by (simp_all only: objects_resolve(1) sorted_two_sorts)
  from s1 s2 m i have "?o1 = ?o2" by (rule sorted_unique)
  then show ?thesis
    by (simp add: resolve_def Let_def)
qed

lemma results_submit_Herbie_inj:
  "inj_on (\<lambda>H. (date H, fxx H)) (set (results (submit (Herbie td probe) ds fs)))"
  by (rule key_inj_Herbie [where probe = probe]) (auto simp: set_submit dest: Herbie_probe)

lemma init_tasks_pos:
  assumes "FastHerbie_init to_datetime new_Herbie lat max_threads DATES fxxs = Inr (FH, log)"
  shows "0 < tasks FH"
proof -
  from init_Inr [OF assms] obtain sD sF ds fs where
    p: "0 < length ds * length fs" and
    r: "(FH, log) = resolve lat sD sF (length ds * length fs)
          (min (int (length ds * length fs)) max_threads) (submit new_Herbie ds fs)"
    by blast
  from r have "FH = fst (resolve lat sD sF (length ds * length fs)
          (min (int (length ds * length fs)) max_threads) (submit new_Herbie ds fs))"
    by (metis fst_conv)
  with p show ?thesis by (simp only: objects_resolve(4))
qed

lemma length_one: "length xs = Suc 0 \<Longrightarrow> \<exists>x. xs = [x]"
  by (cases xs) simp_all

section \<open>The validators\<close>

text \<open>
  C10. For every input that is already a list or a range, \<^verbatim>\<open>_validate_fxx\<close>
  returns it unchanged and looks at no element: a list of strings or of floats is
  accepted, although a bare string and a bare float are rejected with the
  \<^verbatim>\<open>ValueError\<close> of the validator.
\<close>

theorem validate_fxx_list_range_identity:
  "validate_fxx (PList xs) = Inr (PList xs)
   \<and> validate_fxx (PRange a b s) = Inr (PRange a b s)
   \<and> validate_fxx (PList [PStr u, PFloat m e]) = Inr (PList [PStr u, PFloat m e])
   \<and> validate_fxx (PStr u) = Inl (ValueError_fxx (PStr u))
   \<and> validate_fxx (PFloat m e) = Inl (ValueError_fxx (PFloat m e))"
  by (simp add: validate_fxx_def)

text \<open>
  C9, as stated, fails on a tuple: a tuple of timestamps is a sequence of parsable
  values, it has a length and is not a string, so it is not wrapped, and it is neither
  a \<^verbatim>\<open>list\<close> nor a \<^verbatim>\<open>pd.DatetimeIndex\<close>: the validator raises its \<^verbatim>\<open>ValueError\<close>.
\<close>

theorem validate_DATES_tuple_counterexample:
  "validate_DATES parse_demo (PTuple [PTimestamp 1609459200])
   = Inl (ValueError_DATES (PTuple [PTimestamp 1609459200]))"
  by (simp add: validate_DATES_def)

text \<open>
  C9, as amended. \<^verbatim>\<open>_validate_DATES\<close> accepts every single parsable value (a string,
  or any value without a length) and returns the one-element list of its timestamp; it
  returns every \<^verbatim>\<open>list\<close> and every \<^verbatim>\<open>pd.DatetimeIndex\<close> unchanged; and it raises its
  \<^verbatim>\<open>ValueError\<close> exactly when the value after the coercion is neither of the two,
  which is when the argument has a length, is not a string and is not a list or
  \<^verbatim>\<open>pd.DatetimeIndex\<close> (a tuple, a range); the error then carries the argument.
\<close>

theorem validate_DATES_accepts_and_rejects:
  "(isinstance_str v \<or> \<not> has_len v \<longrightarrow> to_datetime v = Some t \<longrightarrow>
      validate_DATES to_datetime v = Inr (PList [PTimestamp t]))
   \<and> validate_DATES to_datetime (PList xs) = Inr (PList xs)
   \<and> validate_DATES to_datetime (PDatetimeIndex ts) = Inr (PDatetimeIndex ts)
   \<and> ((\<exists>w. validate_DATES to_datetime v = Inl (ValueError_DATES w)) \<longleftrightarrow>
        \<not> isinstance_str v \<and> has_len v \<and> \<not> isinstance_list_DatetimeIndex v)
   \<and> (validate_DATES to_datetime v = Inl (ValueError_DATES w) \<longrightarrow> w = v)"
  by (cases v) (auto simp: validate_DATES_def wrap_datetime_def split: option.splits)

theorem validate_DATES_witness:
  "validate_DATES parse_demo (PStr ''2021-01-01'') = Inr (PList [PTimestamp 1609459200])
   \<and> validate_DATES parse_demo (PTimestamp 5) = Inr (PList [PTimestamp 5])
   \<and> (\<exists>w. validate_DATES parse_demo (PRange 0 3 1) = Inl (ValueError_DATES w))"
  using validate_DATES_accepts_and_rejects [of "PStr ''2021-01-01''" parse_demo 1609459200]
    validate_DATES_accepts_and_rejects [of "PTimestamp 5" parse_demo 5]
    validate_DATES_accepts_and_rejects [of "PRange 0 3 1" parse_demo]
  by simp


section \<open>Resolution\<close>

text \<open>
  C2. Whatever the order in which the workers finish, the resolved collection
  \<^verbatim>\<open>self.objects\<close>, and with it \<^verbatim>\<open>file_exists\<close> and \<^verbatim>\<open>file_not_exists\<close>, is
  sorted by date and, among equal dates, by lead; and a second run on the same inputs
  with any other completion order \<open>lat2\<close> yields the very same object, hence the same
  three lists (only the order of the error records in the log may differ). The items
  are those of the \<^verbatim>\<open>Herbie\<close> constructor, which carry their date and lead.
\<close>

theorem objects_sorted_any_completion_order:
  assumes "FastHerbie_init to_datetime (Herbie to_datetime probe) lat1 max_threads DATES fxxs
           = Inr (FH, log1)"
  shows "sorted_wrt date_fxx_le (objects FH)
       \<and> sorted_wrt date_fxx_le (file_exists FH)
       \<and> sorted_wrt date_fxx_le (file_not_exists FH)
       \<and> (\<exists>log2. FastHerbie_init to_datetime (Herbie to_datetime probe) lat2 max_threads
                    DATES fxxs = Inr (FH, log2))"
proof -
  from init_Inr [OF assms] obtain sD sF ds fs where
    v: "validate_DATES to_datetime DATES = Inr sD" "validate_fxx fxxs = Inr sF"
       "py_iter DATES = Inr ds" "py_iter fxxs = Inr fs" "0 < max_threads"
       "0 < length ds * length fs" and
    r: "(FH, log1) = resolve lat1 sD sF (length ds * length fs)
          (min (int (length ds * length fs)) max_threads) (submit (Herbie to_datetime probe) ds fs)"
    by blast
  let ?n = "length ds * length fs"
  let ?th = "min (int ?n) max_threads"
  let ?fs = "submit (Herbie to_datetime probe) ds fs"
  have FH: "FH = fst (resolve lat1 sD sF ?n ?th ?fs)"
    using r by (metis fst_conv)
  have s: "sorted (map (\<lambda>H. (date H, fxx H)) (objects FH))"
    unfolding FH objects_resolve(1) by (rule sorted_two_sorts)
  have "sorted (map (\<lambda>H. (date H, fxx H)) (file_exists FH))"
       "sorted (map (\<lambda>H. (date H, fxx H)) (file_not_exists FH))"
    using s unfolding FH objects_resolve(2,3) by (simp_all only: sorted_filter)
  with s have 1: "sorted_wrt date_fxx_le (objects FH)" "sorted_wrt date_fxx_le (file_exists FH)"
    "sorted_wrt date_fxx_le (file_not_exists FH)"
    by (simp_all only: sorted_key_iff)
  have "FastHerbie_init to_datetime (Herbie to_datetime probe) lat2 max_threads DATES fxxs
        = Inr (resolve lat2 sD sF ?n ?th ?fs)"
    using v by (rule init_resolve)
  moreover have "fst (resolve lat2 sD sF ?n ?th ?fs) = FH"
    unfolding FH by (rule resolve_lat_indep [OF results_submit_Herbie_inj])
  ultimately have "FastHerbie_init to_datetime (Herbie to_datetime probe) lat2 max_threads DATES fxxs
        = Inr (FH, snd (resolve lat2 sD sF ?n ?th ?fs))"
    by (metis prod.collapse)
  with 1 show ?thesis by blast
qed

theorem objects_sorted_witness:
  "FastHerbie_init parse_demo (Herbie parse_demo probe_mixed) lat_rev 50
     (PList [PTimestamp 7200, PTimestamp 3600]) (PList [PInt 6, PInt 0, PInt 3])
   = Inr (\<lparr>self_DATES = PList [PTimestamp 7200, PTimestamp 3600],
           self_fxx = PList [PInt 6, PInt 0, PInt 3], tasks = 6,
           objects = [\<lparr>date = 3600, fxx = 0, grib = Some ''grib2''\<rparr>,
                      \<lparr>date = 3600, fxx = 3, grib = None\<rparr>,
                      \<lparr>date = 7200, fxx = 0, grib = Some ''grib2''\<rparr>,
                      \<lparr>date = 7200, fxx = 3, grib = None\<rparr>],
           file_exists = [\<lparr>date = 3600, fxx = 0, grib = Some ''grib2''\<rparr>,
                          \<lparr>date = 7200, fxx = 0, grib = Some ''grib2''\<rparr>],
           file_not_exists = [\<lparr>date = 3600, fxx = 3, grib = None\<rparr>,
                              \<lparr>date = 7200, fxx = 3, grib = None\<rparr>]\<rparr>,
          [Info_tasks 6 6, Error (TaskError ''timeout''), Error (TaskError ''timeout''),
           Info_objects 4, Warning_missing 2 2])
   \<and> sorted_wrt date_fxx_le
        [\<lparr>date = 3600, fxx = 0, grib = Some ''grib2''\<rparr>,
         \<lparr>date = 3600, fxx = 3, grib = None\<rparr>,
         \<lparr>date = 7200, fxx = 0, grib = Some ''grib2''\<rparr>,
         \<lparr>date = 7200, fxx = 3, grib = None\<rparr>]"
proof -
  have h: "FastHerbie_init parse_demo (Herbie parse_demo probe_mixed) lat_rev 50
     (PList [PTimestamp 7200, PTimestamp 3600]) (PList [PInt 6, PInt 0, PInt 3])
   = Inr (\<lparr>self_DATES = PList [PTimestamp 7200, PTimestamp 3600],
           self_fxx = PList [PInt 6, PInt 0, PInt 3], tasks = 6,
           objects = [\<lparr>date = 3600, fxx = 0, grib = Some ''grib2''\<rparr>,
                      \<lparr>date = 3600, fxx = 3, grib = None\<rparr>,
                      \<lparr>date = 7200, fxx = 0, grib = Some ''grib2''\<rparr>,
                      \<lparr>date = 7200, fxx = 3, grib = None\<rparr>],
           file_exists = [\<lparr>date = 3600, fxx = 0, grib = Some ''grib2''\<rparr>,
                          \<lparr>date = 7200, fxx = 0, grib = Some ''grib2''\<rparr>],
           file_not_exists = [\<lparr>date = 3600, fxx = 3, grib = None\<rparr>,
                              \<lparr>date = 7200, fxx = 3, grib = None\<rparr>]\<rparr>,
          [Info_tasks 6 6, Error (TaskError ''timeout''), Error (TaskError ''timeout''),
           Info_objects 4, Warning_missing 2 2])"
    by (simp add: run_defs probe_mixed_def lat_rev_def)
  from objects_sorted_any_completion_order [OF h] h show ?thesis by simp
qed

text \<open>
  C3. After resolution \<^verbatim>\<open>file_exists\<close> and \<^verbatim>\<open>file_not_exists\<close> are disjoint, they
  are the items of \<^verbatim>\<open>objects\<close> with and without a \<^verbatim>\<open>grib\<close> reference, together
  they are exactly \<^verbatim>\<open>objects\<close> (counting repetitions), and every submitted task
  contributes at most one item: the items, read as outcomes, form a sub-multiset of the
  outcomes of the submitted futures, so there are at most as many as tasks.
\<close>

theorem existing_missing_partition:
  assumes "FastHerbie_init to_datetime new_Herbie lat max_threads DATES fxxs = Inr (FH, log)"
  shows "set (file_exists FH) \<inter> set (file_not_exists FH) = {}
       \<and> file_exists FH = filter (\<lambda>H. grib H \<noteq> None) (objects FH)
       \<and> file_not_exists FH = filter (\<lambda>H. grib H = None) (objects FH)
       \<and> mset (file_exists FH) + mset (file_not_exists FH) = mset (objects FH)
       \<and> (\<exists>ds fs. py_iter DATES = Inr ds \<and> py_iter fxxs = Inr fs
            \<and> mset (map Inr (objects FH)) \<subseteq># mset (submit new_Herbie ds fs)
            \<and> length (objects FH) \<le> length ds * length fs)"
proof -
  from init_Inr [OF assms] obtain sD sF ds fs where
    i: "py_iter DATES = Inr ds" "py_iter fxxs = Inr fs" and
    r: "(FH, log) = resolve lat sD sF (length ds * length fs)
          (min (int (length ds * length fs)) max_threads) (submit new_Herbie ds fs)"
    by blast
  let ?fs = "submit new_Herbie ds fs"
  have FH: "FH = fst (resolve lat sD sF (length ds * length fs)
          (min (int (length ds * length fs)) max_threads) ?fs)"
    using r by (metis fst_conv)
  have e: "file_exists FH = filter (\<lambda>H. grib H \<noteq> None) (objects FH)"
    and n: "file_not_exists FH = filter (\<lambda>H. grib H = None) (objects FH)"
    unfolding FH by (rule objects_resolve)+
  have d: "set (file_exists FH) \<inter> set (file_not_exists FH) = {}"
    unfolding e n by auto
  have u: "mset (file_exists FH) + mset (file_not_exists FH) = mset (objects FH)"
    unfolding e n by (induction "objects FH") simp_all
  have m: "mset (objects FH) = mset (results ?fs)"
    unfolding FH by (rule mset_objects_resolve)
  have "mset (map Inr (objects FH)) = mset (map Inr (results ?fs))"
    using m by (metis mset_map)
  then have s: "mset (map Inr (objects FH)) \<subseteq># mset ?fs"
    using results_Inr_sub [of ?fs] by metis
  have "length (objects FH) = length (results ?fs)"
    using m by (metis size_mset)
  then have "length (objects FH) \<le> length ds * length fs"
    using length_results_exceptions [of ?fs] by (simp add: length_submit)
  with d e n u s i show ?thesis by blast
qed

theorem existing_missing_partition_witness:
  "FastHerbie_init parse_demo (Herbie parse_demo probe_lead0) lat_rev 50
     (PList [PTimestamp 3600]) (PList [PInt 0, PInt 6])
   = Inr (\<lparr>self_DATES = PList [PTimestamp 3600], self_fxx = PList [PInt 0, PInt 6], tasks = 2,
           objects = [\<lparr>date = 3600, fxx = 0, grib = Some ''grib2''\<rparr>,
                      \<lparr>date = 3600, fxx = 6, grib = None\<rparr>],
           file_exists = [\<lparr>date = 3600, fxx = 0, grib = Some ''grib2''\<rparr>],
           file_not_exists = [\<lparr>date = 3600, fxx = 6, grib = None\<rparr>]\<rparr>,
          [Info_tasks 2 2, Info_objects 2, Warning_missing 1 1])
   \<and> set [\<lparr>date = 3600, fxx = 0, grib = Some ''grib2''\<rparr>]
       \<inter> set [\<lparr>date = 3600, fxx = 6, grib = None\<rparr>] = {}
   \<and> mset [\<lparr>date = 3600, fxx = 0, grib = Some ''grib2''\<rparr>]
       + mset [\<lparr>date = 3600, fxx = 6, grib = None\<rparr>]
     = mset [\<lparr>date = 3600, fxx = 0, grib = Some ''grib2''\<rparr>,
             \<lparr>date = 3600, fxx = 6, grib = None\<rparr>]"
proof -
  have h: "FastHerbie_init parse_demo (Herbie parse_demo probe_lead0) lat_rev 50
     (PList [PTimestamp 3600]) (PList [PInt 0, PInt 6])
   = Inr (\<lparr>self_DATES = PList [PTimestamp 3600], self_fxx = PList [PInt 0, PInt 6], tasks = 2,
           objects = [\<lparr>date = 3600, fxx = 0, grib = Some ''grib2''\<rparr>,
                      \<lparr>date = 3600, fxx = 6, grib = None\<rparr>],
           file_exists = [\<lparr>date = 3600, fxx = 0, grib = Some ''grib2''\<rparr>],
           file_not_exists = [\<lparr>date = 3600, fxx = 6, grib = None\<rparr>]\<rparr>,
          [Info_tasks 2 2, Info_objects 2, Warning_missing 1 1])"
    by (simp add: run_defs probe_lead0_def lat_rev_def)
  from existing_missing_partition [OF h] h show ?thesis by simp
qed

text \<open>
  C5. In a resolution run (the inputs pass validation and the pool is created, that is
  \<open>0 < max_threads\<close>) in which some task raises and some task succeeds, the
  constructor does not raise: it returns the batch whose objects are exactly the
  successfully resolved items, every exception raised by a task is logged once, and the
  results and the logged errors together account for every task.
\<close>

theorem partial_failure_does_not_raise:
  assumes "validate_DATES to_datetime DATES = Inr sD" and "validate_fxx fxxs = Inr sF"
    and "py_iter DATES = Inr ds" and "py_iter fxxs = Inr fs" and "0 < max_threads"
    and "Inl e \<in> set (submit new_Herbie ds fs)" and "Inr H \<in> set (submit new_Herbie ds fs)"
  shows "\<exists>FH log. FastHerbie_init to_datetime new_Herbie lat max_threads DATES fxxs = Inr (FH, log)
           \<and> mset (objects FH) = mset (results (submit new_Herbie ds fs))
           \<and> mset (errors_logged log) = mset (exceptions (submit new_Herbie ds fs))
           \<and> e \<in> set (errors_logged log) \<and> H \<in> set (objects FH)
           \<and> length (objects FH) + length (errors_logged log) = length ds * length fs"
proof -
  let ?fs = "submit new_Herbie ds fs"
  let ?r = "resolve lat sD sF (length ds * length fs)
              (min (int (length ds * length fs)) max_threads) ?fs"
  have "?fs \<noteq> []" using assms(6) by auto
  then have "0 < length ?fs" by simp
  then have "0 < length ds * length fs"
    by (simp only: length_submit)
  with assms(1-5) have 0: "FastHerbie_init to_datetime new_Herbie lat max_threads DATES fxxs = Inr ?r"
    by (rule init_resolve)
  have 1: "mset (objects (fst ?r)) = mset (results ?fs)"
    by (rule mset_objects_resolve)
  have 2: "mset (errors_logged (snd ?r)) = mset (exceptions ?fs)"
    by (simp only: errors_resolve mset_exceptions_cong [OF mset_as_completed])
  have "e \<in> set (exceptions ?fs)" using assms(6) by (force simp: exceptions_filter)
  then have 3: "e \<in> set (errors_logged (snd ?r))"
    using 2 by (metis mset_eq_setD)
  have "H \<in> set (results ?fs)" using assms(7) by (force simp: results_filter)
  then have 4: "H \<in> set (objects (fst ?r))"
    using 1 by (metis mset_eq_setD)
  have "length (objects (fst ?r)) = length (results ?fs)"
       "length (errors_logged (snd ?r)) = length (exceptions ?fs)"
    using 1 2 by (metis size_mset)+
  then have 5: "length (objects (fst ?r)) + length (errors_logged (snd ?r)) = length ds * length fs"
    using length_results_exceptions [of ?fs] by (simp add: length_submit)
  from 0 have "FastHerbie_init to_datetime new_Herbie lat max_threads DATES fxxs
               = Inr (fst ?r, snd ?r)" by simp
  with 1 2 3 4 5 show ?thesis by blast
qed

theorem partial_failure_witness:
  "\<exists>FH log.
     FastHerbie_init parse_demo (Herbie parse_demo probe_mixed) lat_rev 50
       (PList [PTimestamp 7200]) (PList [PInt 6, PInt 0]) = Inr (FH, log)
     \<and> objects FH = [\<lparr>date = 7200, fxx = 0, grib = Some ''grib2''\<rparr>]
     \<and> errors_logged log = [TaskError ''timeout'']"
proof -
  have s: "submit (Herbie parse_demo probe_mixed) [PTimestamp 7200] [PInt 6, PInt 0]
           = [Inl (TaskError ''timeout''), Inr \<lparr>date = 7200, fxx = 0, grib = Some ''grib2''\<rparr>]"
    by (simp add: submit_def Herbie_def bind_exn_def probe_mixed_def)
  have a: "validate_DATES parse_demo (PList [PTimestamp 7200]) = Inr (PList [PTimestamp 7200])"
    by (simp add: validate_DATES_def)
  have b: "validate_fxx (PList [PInt 6, PInt 0]) = Inr (PList [PInt 6, PInt 0])"
    by (simp add: validate_fxx_def)
  have c: "py_iter (PList [PTimestamp 7200]) = Inr [PTimestamp 7200]" by simp
  have d: "py_iter (PList [PInt 6, PInt 0]) = Inr [PInt 6, PInt 0]" by simp
  have e: "(0::int) < 50" by simp
  have f: "Inl (TaskError ''timeout'')
           \<in> set (submit (Herbie parse_demo probe_mixed) [PTimestamp 7200] [PInt 6, PInt 0])"
    by (simp add: s)
  have g: "Inr \<lparr>date = 7200, fxx = 0, grib = Some ''grib2''\<rparr>
           \<in> set (submit (Herbie parse_demo probe_mixed) [PTimestamp 7200] [PInt 6, PInt 0])"
    by (simp add: s)
  from partial_failure_does_not_raise [where lat = lat_rev, OF a b c d e f g]
  show ?thesis
    by (auto simp: s mset_single_iff_right [THEN iffD1] dest!: sym [where t = "{#_#}"])
qed

text \<open>
  C4, as stated, fails: with one date and one lead whose construction raises, the
  constructor returns normally, with an empty batch and the error in the log.
\<close>

theorem all_tasks_fail_counterexample:
  "FastHerbie_init parse_demo (Herbie parse_demo probe_raise) id 50
     (PList [PTimestamp 0]) (PList [PInt 0])
   = Inr (\<lparr>self_DATES = PList [PTimestamp 0], self_fxx = PList [PInt 0], tasks = 1,
           objects = [], file_exists = [], file_not_exists = []\<rparr>,
          [Info_tasks 1 1, Error (TaskError ''timeout''), Info_objects 0])"
  by (simp add: run_defs probe_raise_def)

text \<open>
  C4, as amended. No \<^verbatim>\<open>ResolutionError\<close> exists in the module. If at least one task
  is submitted and every task raises, the constructor still returns a batch: its
  \<^verbatim>\<open>objects\<close>, \<^verbatim>\<open>file_exists\<close> and \<^verbatim>\<open>file_not_exists\<close> are empty, and one error per
  task is logged.
\<close>

theorem all_tasks_fail_empty_batch:
  assumes "validate_DATES to_datetime DATES = Inr sD" and "validate_fxx fxxs = Inr sF"
    and "py_iter DATES = Inr ds" and "py_iter fxxs = Inr fs" and "0 < max_threads"
    and "0 < length ds * length fs"
    and "\<forall>r \<in> set (submit new_Herbie ds fs). isl r"
  shows "\<exists>log. FastHerbie_init to_datetime new_Herbie lat max_threads DATES fxxs
           = Inr (\<lparr>self_DATES = sD, self_fxx = sF, tasks = length ds * length fs,
                   objects = [], file_exists = [], file_not_exists = []\<rparr>, log)
           \<and> length (errors_logged log) = length ds * length fs"
proof -
  let ?fs = "submit new_Herbie ds fs"
  let ?r = "resolve lat sD sF (length ds * length fs)
              (min (int (length ds * length fs)) max_threads) ?fs"
  from assms(1-6) have 0: "FastHerbie_init to_datetime new_Herbie lat max_threads DATES fxxs = Inr ?r"
    by (rule init_resolve)
  have "filter (\<lambda>r. \<not> isl r) ?fs = []" using assms(7) by (simp add: filter_empty_conv)
  then have z: "results ?fs = []" by (simp add: results_filter)
  have "mset (results (as_completed lat ?fs)) = mset (results ?fs)"
    by (rule mset_results_cong [OF mset_as_completed])
  with z have "results (as_completed lat ?fs) = []" by simp
  then have 1: "fst ?r = \<lparr>self_DATES = sD, self_fxx = sF, tasks = length ds * length fs,
                   objects = [], file_exists = [], file_not_exists = []\<rparr>"
    by (simp add: resolve_def Let_def)
  have "mset (errors_logged (snd ?r)) = mset (exceptions ?fs)"
    by (simp only: errors_resolve mset_exceptions_cong [OF mset_as_completed])
  then have "length (errors_logged (snd ?r)) = length (exceptions ?fs)"
    by (metis size_mset)
  with z have 2: "length (errors_logged (snd ?r)) = length ds * length fs"
    using length_results_exceptions [of ?fs] by (simp add: length_submit)
  from 0 have "FastHerbie_init to_datetime new_Herbie lat max_threads DATES fxxs
               = Inr (fst ?r, snd ?r)" by simp
  with 1 2 show ?thesis by auto
qed


theorem all_tasks_fail_witness:
  "\<exists>log. FastHerbie_init parse_demo (Herbie parse_demo probe_raise) lat_rev 50
            (PList [PTimestamp 0, PTimestamp 3600]) (PList [PInt 0])
          = Inr (\<lparr>self_DATES = PList [PTimestamp 0, PTimestamp 3600], self_fxx = PList [PInt 0],
                  tasks = 2, objects = [], file_exists = [], file_not_exists = []\<rparr>, log)
        \<and> length (errors_logged log) = 2"
proof -
  have s: "submit (Herbie parse_demo probe_raise) [PTimestamp 0, PTimestamp 3600] [PInt 0]
           = [Inl (TaskError ''timeout''), Inl (TaskError ''timeout'')]"
    by (simp add: submit_def Herbie_def bind_exn_def probe_raise_def)
  have a: "validate_DATES parse_demo (PList [PTimestamp 0, PTimestamp 3600])
           = Inr (PList [PTimestamp 0, PTimestamp 3600])"
    by (simp add: validate_DATES_def)
  have b: "validate_fxx (PList [PInt 0]) = Inr (PList [PInt 0])"
    by (simp add: validate_fxx_def)
  have c: "py_iter (PList [PTimestamp 0, PTimestamp 3600]) = Inr [PTimestamp 0, PTimestamp 3600]"
    by simp
  have d: "py_iter (PList [PInt 0]) = Inr [PInt 0]" by simp
  have e: "(0::int) < 50" by simp
  have f: "0 < length [PTimestamp 0, PTimestamp 3600] * length [PInt 0]" by simp
  have g: "\<forall>r \<in> set (submit (Herbie parse_demo probe_raise)
                        [PTimestamp 0, PTimestamp 3600] [PInt 0]). isl r"
    by (simp add: s)
  from all_tasks_fail_empty_batch [where lat = lat_rev, OF a b c d e f g]
  show ?thesis by (simp add: numeral_2_eq_2)
qed

text \<open>
  C1. With a scalar argument the constructor does not behave as with the one-element
  list: the validated values are stored in \<^verbatim>\<open>self.DATES\<close> and \<^verbatim>\<open>self.fxx\<close>, but
  \<^verbatim>\<open>len\<close> and the loops read the arguments themselves. A single integer lead makes
  \<^verbatim>\<open>len(fxx)\<close> raise a \<^verbatim>\<open>TypeError\<close>, whatever the dates; a single timestamp makes
  \<^verbatim>\<open>len(DATES)\<close> raise; and the date string \<^verbatim>\<open>2021-01-01\<close> with the leads \<^verbatim>\<open>[0]\<close>
  gives ten tasks, one per character, instead of one.
\<close>

theorem FastHerbie_init_scalar_arguments:
  "FastHerbie_init to_datetime new_Herbie lat max_threads (PList ds) (PInt k)
     = Inl (TypeError_len (PInt k))
   \<and> FastHerbie_init parse_demo new_Herbie lat max_threads (PStr ''2021-01-01'') (PInt 6)
     = Inl (TypeError_len (PInt 6))
   \<and> FastHerbie_init parse_demo new_Herbie lat max_threads (PTimestamp t) (PList fs)
     = Inl (TypeError_len (PTimestamp t))
   \<and> FastHerbie_init parse_demo (Herbie parse_demo probe_found) id 50
       (PStr ''2021-01-01'') (PList [PInt 0])
     = Inr (\<lparr>self_DATES = PList [PTimestamp 1609459200], self_fxx = PList [PInt 0],
             tasks = 10, objects = [], file_exists = [], file_not_exists = []\<rparr>,
            [Info_tasks 10 10, Error (ParserError (PStr ''2'')), Error (ParserError (PStr ''0'')),
             Error (ParserError (PStr ''2'')), Error (ParserError (PStr ''1'')),
             Error (ParserError (PStr ''-'')), Error (ParserError (PStr ''0'')),
             Error (ParserError (PStr ''1'')), Error (ParserError (PStr ''-'')),
             Error (ParserError (PStr ''0'')), Error (ParserError (PStr ''1'')),
             Info_objects 0])"
  by (simp add: run_defs)

section \<open>Batch operations on a resolved batch\<close>

text \<open>
  C6. On the batch of the single date 0 and the leads \<^verbatim>\<open>[6, 0]\<close>, with both files
  found and no task failed, \<^verbatim>\<open>df\<close> has one row and two columns, labelled
  \<^verbatim>\<open>F06\<close> and \<^verbatim>\<open>F00\<close> in the order of the leads, but the row holds the objects in
  sorted order: the cell under \<^verbatim>\<open>F06\<close> is the item of lead 0, not the item of the
  task (dates[0], leads[0]).
\<close>

theorem df_unsorted_leads:
  "FastHerbie_init parse_demo (Herbie parse_demo probe_found) id 50
     (PList [PTimestamp 0]) (PList [PInt 6, PInt 0])
   = Inr (\<lparr>self_DATES = PList [PTimestamp 0], self_fxx = PList [PInt 6, PInt 0], tasks = 2,
           objects = [\<lparr>date = 0, fxx = 0, grib = Some ''grib2''\<rparr>,
                      \<lparr>date = 0, fxx = 6, grib = Some ''grib2''\<rparr>],
           file_exists = [\<lparr>date = 0, fxx = 0, grib = Some ''grib2''\<rparr>,
                          \<lparr>date = 0, fxx = 6, grib = Some ''grib2''\<rparr>],
           file_not_exists = []\<rparr>,
          [Info_tasks 2 2, Info_objects 2])
   \<and> df \<lparr>self_DATES = PList [PTimestamp 0], self_fxx = PList [PInt 6, PInt 0], tasks = 2,
           objects = [\<lparr>date = 0, fxx = 0, grib = Some ''grib2''\<rparr>,
                      \<lparr>date = 0, fxx = 6, grib = Some ''grib2''\<rparr>],
           file_exists = [\<lparr>date = 0, fxx = 0, grib = Some ''grib2''\<rparr>,
                          \<lparr>date = 0, fxx = 6, grib = Some ''grib2''\<rparr>],
           file_not_exists = []\<rparr>
     = Inr \<lparr>data = [[\<lparr>date = 0, fxx = 0, grib = Some ''grib2''\<rparr>,
                      \<lparr>date = 0, fxx = 6, grib = Some ''grib2''\<rparr>]],
            index = PList [PTimestamp 0], columns = [''F06'', ''F00'']\<rparr>"
proof -
  have d: "Suc (Suc (Suc 0)) div Suc (Suc 0) = Suc 0"
    by code_simp
  show ?thesis
    by (simp add: run_defs probe_found_def df_def chunks_def format_02d_def digits.simps d)
qed

text \<open>
  C8. On a batch that the constructor has returned, and with a pool that can be created
  (\<open>0 < max_threads\<close>), if exactly one of the downloads raises, \<^verbatim>\<open>download\<close> does
  not raise: it returns the paths of the successful downloads in completion order, one
  fewer than there are existing items, and the log reports exactly that one exception.
\<close>

theorem download_one_failure:
  assumes "FastHerbie_init to_datetime new_Herbie lat0 max_threads0 DATES fxxs = Inr (FH, log0)"
    and "0 < max_threads"
    and "length (exceptions (map dl (file_exists FH))) = 1"
  shows "\<exists>paths log. download FH dl lat max_threads = Inr (paths, log)
           \<and> length paths = length (file_exists FH) - 1
           \<and> paths = results (as_completed lat (map dl (file_exists FH)))
           \<and> mset paths = mset (results (map dl (file_exists FH)))
           \<and> (\<exists>e. errors_logged log = [e] \<and> e \<in> set (exceptions (map dl (file_exists FH))))"
proof -
  let ?fs = "map dl (file_exists FH)"
  let ?c = "as_completed lat ?fs"
  let ?log = "[Info_tasks (tasks FH) (min (int (tasks FH)) max_threads)] @ map Error (exceptions ?c)"
  have "0 < tasks FH" using assms(1) by (rule init_tasks_pos)
  with assms(2) have "\<not> min (int (tasks FH)) max_threads \<le> 0" by simp
  then have 0: "download FH dl lat max_threads = Inr (results ?c, ?log)"
    by (simp add: download_def Let_def)
  have 1: "mset (results ?c) = mset (results ?fs)"
    by (rule mset_results_cong [OF mset_as_completed])
  then have "length (results ?c) = length (results ?fs)" by (metis size_mset)
  with assms(3) have 2: "length (results ?c) = length (file_exists FH) - 1"
    using length_results_exceptions [of ?fs] by simp
  have 3: "mset (exceptions ?c) = mset (exceptions ?fs)"
    by (rule mset_exceptions_cong [OF mset_as_completed])
  then have "length (exceptions ?c) = length (exceptions ?fs)" by (metis size_mset)
  with assms(3) obtain e where e: "exceptions ?c = [e]"
    using length_one by force
  then have "e \<in> set (exceptions ?c)" by simp
  with 3 have "e \<in> set (exceptions ?fs)" by (metis mset_eq_setD)
  moreover have "errors_logged ?log = [e]"
    using e by (simp add: errors_logged_append errors_logged_map_Error)
  ultimately show ?thesis using 0 1 2 by blast
qed

theorem download_one_failure_witness:
  "\<exists>paths log.
     download \<lparr>self_DATES = PList [PTimestamp 3600], self_fxx = PList [PInt 0, PInt 6], tasks = 2,
           objects = [\<lparr>date = 3600, fxx = 0, grib = Some ''grib2''\<rparr>,
                      \<lparr>date = 3600, fxx = 6, grib = Some ''grib2''\<rparr>],
           file_exists = [\<lparr>date = 3600, fxx = 0, grib = Some ''grib2''\<rparr>,
                          \<lparr>date = 3600, fxx = 6, grib = Some ''grib2''\<rparr>],
           file_not_exists = []\<rparr> dl_demo lat_rev 20 = Inr (paths, log)
     \<and> paths = [''file.grib2''] \<and> errors_logged log = [TaskError ''refused'']"
proof -
  have h: "FastHerbie_init parse_demo (Herbie parse_demo probe_found) lat_rev 50
     (PList [PTimestamp 3600]) (PList [PInt 0, PInt 6])
   = Inr (\<lparr>self_DATES = PList [PTimestamp 3600], self_fxx = PList [PInt 0, PInt 6], tasks = 2,
           objects = [\<lparr>date = 3600, fxx = 0, grib = Some ''grib2''\<rparr>,
                      \<lparr>date = 3600, fxx = 6, grib = Some ''grib2''\<rparr>],
           file_exists = [\<lparr>date = 3600, fxx = 0, grib = Some ''grib2''\<rparr>,
                          \<lparr>date = 3600, fxx = 6, grib = Some ''grib2''\<rparr>],
           file_not_exists = []\<rparr>,
          [Info_tasks 2 2, Info_objects 2])"
    by (simp add: run_defs probe_found_def lat_rev_def)
  have m: "(0::int) < 20" by simp
  have x: "length (exceptions (map dl_demo (file_exists
           \<lparr>self_DATES = PList [PTimestamp 3600], self_fxx = PList [PInt 0, PInt 6], tasks = 2,
           objects = [\<lparr>date = 3600, fxx = 0, grib = Some ''grib2''\<rparr>,
                      \<lparr>date = 3600, fxx = 6, grib = Some ''grib2''\<rparr>],
           file_exists = [\<lparr>date = 3600, fxx = 0, grib = Some ''grib2''\<rparr>,
                          \<lparr>date = 3600, fxx = 6, grib = Some ''grib2''\<rparr>],
           file_not_exists = []\<rparr>))) = 1"
    by (simp add: dl_demo_def)
  from download_one_failure [where lat = lat_rev and dl = dl_demo, OF h m x]
  show ?thesis
    by (auto simp: dl_demo_def as_completed_def lat_rev_def)
qed

section \<open>The window of the latest-file finder\<close>

text \<open>
  C7. For \<^verbatim>\<open>n = 6\<close> and an hourly frequency, at 01:00:00 on 2021-01-01,
  \<^verbatim>\<open>Herbie_latest\<close> probes seven timestamps, from six hours before the floored
  current time up to it, not six; when only the file of six hours ago exists, it is
  found and returned.
\<close>

theorem Herbie_latest_probes_one_more:
  "latest_DATES 1609462800 6 3600
     = [1609441200, 1609444800, 1609448400, 1609452000, 1609455600, 1609459200, 1609462800]
   \<and> length (latest_DATES 1609462800 6 3600) = 7
   \<and> Herbie_latest parse_demo (Herbie parse_demo (probe_at 1609441200)) id 1609462800 6 3600
     = Inr \<lparr>date = 1609441200, fxx = 0, grib = Some ''grib2''\<rparr>"
  by (simp add: Herbie_latest_def latest_DATES_def floor_freq_def date_range_def run_defs
      probe_at_def eval_nat_numeral)

end
